theory Spec2Isabelle
  imports Complex_Main
begin

section \<open>The auto-scroll hook of src/common/useAutoScroll/useAutoScroll.tsx\<close>

text \<open>
  JavaScript numbers are modelled as real numbers: the arithmetic of \<open>checkScroll\<close>
  (sums, differences, one product, comparisons, \<open>Math.round\<close>, \<open>Math.max\<close> and
  \<open>Math.min\<close>) is taken exactly, without the rounding error of doubles and without
  \<open>NaN\<close> and the infinities.
\<close>

subsection \<open>Data\<close>

text \<open>The fields of the scroll parent that \<open>checkScroll\<close> reads and writes.\<close>

record Element =
  scrollLeft :: real
  scrollTop :: real
  scrollWidth :: real
  scrollHeight :: real

text \<open>The cached bounding rectangle (\<open>top\<close> is written \<open>top_y\<close>).\<close>

record DOMRect =
  bottom :: real
  left :: real
  right :: real
  top_y :: real

record Touch =
  clientX :: real
  clientY :: real

text \<open>
  What the caller's \<open>onScroll\<close> does to the hook before it returns: nothing, or it has
  React tear the hook down (the component unmounts, or \<open>enabled\<close> turns false and the
  effect is flushed), so that the cleanup of the effect on \<open>enabled\<close> runs inside the call.
\<close>

datatype reaction = Returns | TearsDown

text \<open>
  The options of the hook. \<open>intensity\<close>, \<open>onScroll\<close> and \<open>size\<close> are optional in the
  source and get their defaults when the hook destructures them; \<open>reference\<close> arrives
  with the effect that depends on it.
\<close>

record Options =
  enabled :: bool
  intensity_opt :: "real option"
  onScroll_opt :: "(real \<Rightarrow> real \<Rightarrow> reaction) option"
  size_opt :: "real option"

definition noop :: "real \<Rightarrow> real \<Rightarrow> reaction" where
  "noop x y = Returns"

definition onScroll :: "Options \<Rightarrow> real \<Rightarrow> real \<Rightarrow> reaction" where
  "onScroll options = (case onScroll_opt options of None \<Rightarrow> noop | Some f \<Rightarrow> f)"

definition intensity :: "Options \<Rightarrow> real" where
  "intensity options = (case intensity_opt options of None \<Rightarrow> 2 / 10 | Some i \<Rightarrow> i)"

definition gutter_size :: "Options \<Rightarrow> real" where
  "gutter_size options = (case size_opt options of None \<Rightarrow> 50 | Some s \<Rightarrow> s)"

datatype error = TypeError

text \<open>
  The state of one mounted hook: its five refs, and the part of the host it acts on.
  \<open>frames\<close> holds the handles of the animation-frame callbacks of this hook that are
  scheduled and have not yet run, \<open>frame_id\<close> is the window's animation-frame callback
  identifier, \<open>mousemove\<close> and \<open>touchmove\<close> say whether the document carries the
  hook's listener, \<open>closure\<close> holds the options of the render whose \<open>checkScroll\<close>
  was scheduled, and \<open>onScroll_calls\<close> lists the arguments of the calls of \<open>onScroll\<close>,
  oldest first.
\<close>

record hook =
  handleRef :: "nat option"
  parentRef :: "Element option"
  parentRectRef :: "DOMRect option"
  positionXRef :: "real option"
  positionYRef :: "real option"
  frames :: "nat set"
  frame_id :: nat
  mousemove :: bool
  touchmove :: bool
  closure :: Options
  onScroll_calls :: "(real \<times> real) list"

subsection \<open>The frame loop\<close>

text \<open>\<open>window.requestAnimationFrame\<close>: the identifier is incremented and returned.\<close>

definition requestAnimationFrame :: "hook \<Rightarrow> nat \<times> hook" where
  "requestAnimationFrame w =
     (frame_id w + 1, w\<lparr>frame_id := frame_id w + 1, frames := insert (frame_id w + 1) (frames w)\<rparr>)"

definition cancelAnimationFrame :: "nat \<Rightarrow> hook \<Rightarrow> hook" where
  "cancelAnimationFrame handle w = w\<lparr>frames := frames w - {handle}\<rparr>"

definition checkStep :: "hook \<Rightarrow> hook" where
  "checkStep w = (case requestAnimationFrame w of (handle, w') \<Rightarrow> w'\<lparr>handleRef := Some handle\<rparr>)"

text \<open>
  The cleanup that the effect on \<open>enabled\<close> returns. It stands here, before the frame,
  because a caller's \<open>onScroll\<close> can have it run in the middle of one.
\<close>

definition cleanup :: "hook \<Rightarrow> hook" where
  "cleanup w =
     (let w1 = (case handleRef w of
                  None \<Rightarrow> w
                | Some handle \<Rightarrow> if handle \<noteq> 0 then cancelAnimationFrame handle w else w)
      in w1\<lparr>handleRef := None, positionXRef := None, positionYRef := None,
             mousemove := False, touchmove := False\<rparr>)"

text \<open>
  The call \<open>onScroll(positionX, positionY)\<close>: the call is logged, and the hook is in the
  state the callback leaves it in.
\<close>

definition call_onScroll :: "Options \<Rightarrow> real \<Rightarrow> real \<Rightarrow> hook \<Rightarrow> hook" where
  "call_onScroll options x y w =
     (case onScroll options x y of
        Returns \<Rightarrow> w\<lparr>onScroll_calls := onScroll_calls w @ [(x, y)]\<rparr>
      | TearsDown \<Rightarrow> cleanup (w\<lparr>onScroll_calls := onScroll_calls w @ [(x, y)]\<rparr>))"

text \<open>\<open>Math.round\<close>: the nearest integer, a tie going up.\<close>

definition Math_round :: "real \<Rightarrow> real" where
  "Math_round x = of_int \<lfloor>x + 1 / 2\<rfloor>"

definition edgeBottom :: "DOMRect \<Rightarrow> real \<Rightarrow> real" where
  "edgeBottom parentRect sz = bottom parentRect - sz"

definition edgeLeft :: "DOMRect \<Rightarrow> real \<Rightarrow> real" where
  "edgeLeft parentRect sz = left parentRect + sz"

definition edgeRight :: "DOMRect \<Rightarrow> real \<Rightarrow> real" where
  "edgeRight parentRect sz = right parentRect - sz"

definition edgeTop :: "DOMRect \<Rightarrow> real \<Rightarrow> real" where
  "edgeTop parentRect sz = top_y parentRect + sz"

definition isEdgeBottom :: "DOMRect \<Rightarrow> real \<Rightarrow> real \<Rightarrow> bool" where
  "isEdgeBottom parentRect sz positionY = (positionY > edgeBottom parentRect sz)"

definition isEdgeLeft :: "DOMRect \<Rightarrow> real \<Rightarrow> real \<Rightarrow> bool" where
  "isEdgeLeft parentRect sz positionX = (positionX < edgeLeft parentRect sz)"

definition isEdgeRight :: "DOMRect \<Rightarrow> real \<Rightarrow> real \<Rightarrow> bool" where
  "isEdgeRight parentRect sz positionX = (positionX > edgeRight parentRect sz)"

definition isEdgeTop :: "DOMRect \<Rightarrow> real \<Rightarrow> real \<Rightarrow> bool" where
  "isEdgeTop parentRect sz positionY = (positionY < edgeTop parentRect sz)"

text \<open>
  The two \<open>if\<close>/\<open>else if\<close> chains that move \<open>nextScrollLeft\<close> and \<open>nextScrollTop\<close>.
  Here and above \<open>sz\<close> is the source's \<open>size\<close> and \<open>k\<close> its \<open>intensity\<close>; \<open>sl\<close> and
  \<open>st\<close> are the offsets \<open>parent.scrollLeft\<close> and \<open>parent.scrollTop\<close> read at the start.
\<close>

definition nextScrollLeft :: "DOMRect \<Rightarrow> real \<Rightarrow> real \<Rightarrow> real \<Rightarrow> real \<Rightarrow> real" where
  "nextScrollLeft parentRect sz k positionX sl =
     (if isEdgeLeft parentRect sz positionX then sl - (edgeLeft parentRect sz - positionX) * k
      else if isEdgeRight parentRect sz positionX then sl + (positionX - edgeRight parentRect sz) * k
      else sl)"

definition nextScrollTop :: "DOMRect \<Rightarrow> real \<Rightarrow> real \<Rightarrow> real \<Rightarrow> real \<Rightarrow> real" where
  "nextScrollTop parentRect sz k positionY st =
     (if isEdgeTop parentRect sz positionY then st - (edgeTop parentRect sz - positionY) * k
      else if isEdgeBottom parentRect sz positionY then st + (positionY - edgeBottom parentRect sz) * k
      else st)"

text \<open>
  One frame: the two writes, then the call of \<open>onScroll\<close>, then the next frame is
  scheduled whatever the callback did. The model stores in the element the numbers the
  source assigns to \<open>scrollLeft\<close> and \<open>scrollTop\<close>; what the browser makes of an assigned
  number is not part of the source.
\<close>

definition checkScroll :: "Options \<Rightarrow> hook \<Rightarrow> hook" where
  "checkScroll options w =
     (case parentRef w of None \<Rightarrow> checkStep w | Some parent \<Rightarrow>
      case parentRectRef w of None \<Rightarrow> checkStep w | Some parentRect \<Rightarrow>
      case positionXRef w of None \<Rightarrow> checkStep w | Some positionX \<Rightarrow>
      case positionYRef w of None \<Rightarrow> checkStep w | Some positionY \<Rightarrow>
        (let sz = gutter_size options; k = intensity options in
         if \<not> isEdgeBottom parentRect sz positionY \<and> \<not> isEdgeLeft parentRect sz positionX
            \<and> \<not> isEdgeRight parentRect sz positionX \<and> \<not> isEdgeTop parentRect sz positionY
         then checkStep w
         else
           checkStep (call_onScroll options positionX positionY (w\<lparr>
             parentRef := Some (parent\<lparr>
               scrollLeft := max 0 (min (Math_round
                 (nextScrollLeft parentRect sz k positionX (scrollLeft parent))) (scrollWidth parent)),
               scrollTop := max 0 (min (Math_round
                 (nextScrollTop parentRect sz k positionY (scrollTop parent))) (scrollHeight parent))\<rparr>)\<rparr>))))"

subsection \<open>Event handlers, effects and the host's deliveries\<close>

definition handleMouseMove :: "real \<Rightarrow> real \<Rightarrow> hook \<Rightarrow> hook" where
  "handleMouseMove x y w = w\<lparr>positionXRef := Some x, positionYRef := Some y\<rparr>"

text \<open>
  \<open>targetTouches[0]\<close> is \<open>undefined\<close> on an empty list, and reading \<open>clientX\<close> from it
  throws before anything is assigned.
\<close>

definition handleTouchMove :: "Touch list \<Rightarrow> hook \<Rightarrow> error + hook" where
  "handleTouchMove targetTouches w =
     (case targetTouches of
        [] \<Rightarrow> Inl TypeError
      | t # _ \<Rightarrow> Inr (w\<lparr>positionXRef := Some (clientX t), positionYRef := Some (clientY t)\<rparr>))"

text \<open>
  The effect on \<open>reference\<close>. The resolver \<open>getScrollParent\<close> lives in another module; the
  effect is given what it and \<open>getBoundingClientRect\<close> return, or nothing when
  \<open>reference\<close> is null.
\<close>

definition referenceEffect :: "(Element \<times> DOMRect) option \<Rightarrow> hook \<Rightarrow> hook" where
  "referenceEffect reference w =
     (case reference of
        None \<Rightarrow> w
      | Some (parent, parentRect) \<Rightarrow> w\<lparr>parentRef := Some parent, parentRectRef := Some parentRect\<rparr>)"

text \<open>The body of the effect on \<open>enabled\<close>; the cleanup it returns is above.\<close>

definition enabledEffect :: "Options \<Rightarrow> hook \<Rightarrow> hook" where
  "enabledEffect options w =
     (if enabled options
      then checkStep (w\<lparr>mousemove := True, touchmove := True, closure := options\<rparr>)
      else w)"

text \<open>
  What can happen to a mounted hook, each a JavaScript task that runs to completion:
  the effect on \<open>reference\<close> runs; the effect on \<open>enabled\<close> runs (React first runs the
  cleanup of its previous run); the component unmounts; the browser runs the
  animation-frame callback with a given handle; the document receives a mouse move or a
  touch move.
\<close>

datatype event =
    ReferenceEffect "(Element \<times> DOMRect) option"
  | EnabledEffect Options
  | Unmount
  | AnimationFrame nat
  | MouseMove real real
  | TouchMove "Touch list"

fun step :: "event \<Rightarrow> hook \<Rightarrow> error + hook" where
  "step (ReferenceEffect reference) w = Inr (referenceEffect reference w)"
| "step (EnabledEffect options) w = Inr (enabledEffect options (cleanup w))"
| "step Unmount w = Inr (cleanup w)"
| "step (AnimationFrame handle) w =
     (if handle \<in> frames w then Inr (checkScroll (closure w) (w\<lparr>frames := frames w - {handle}\<rparr>))
      else Inr w)"
| "step (MouseMove x y) w = (if mousemove w then Inr (handleMouseMove x y w) else Inr w)"
| "step (TouchMove targetTouches) w =
     (if touchmove w then handleTouchMove targetTouches w else Inr w)"

text \<open>
  An exception thrown by a listener is reported by the host and the next task runs on
  the state the listener left, which here is the state it found.
\<close>

definition dispatch :: "hook \<Rightarrow> event \<Rightarrow> hook" where
  "dispatch w e = (case step e w of Inl _ \<Rightarrow> w | Inr w' \<Rightarrow> w')"

definition run :: "event list \<Rightarrow> hook \<Rightarrow> hook" where
  "run es w = foldl dispatch w es"

text \<open>A hook as \<open>useAutoScroll\<close> creates it on its first render.\<close>

definition initial :: hook where
  "initial = \<lparr>handleRef = None, parentRef = None, parentRectRef = None,
     positionXRef = None, positionYRef = None, frames = {}, frame_id = 0,
     mousemove = False, touchmove = False,
     closure = \<lparr>enabled = False, intensity_opt = None, onScroll_opt = None, size_opt = None\<rparr>,
     onScroll_calls = []\<rparr>"

fun is_delivery :: "event \<Rightarrow> bool" where
  "is_delivery (AnimationFrame _) = True"
| "is_delivery (MouseMove _ _) = True"
| "is_delivery (TouchMove _) = True"
| "is_delivery _ = False"

text \<open>
  The invariant of the loop: a scheduled frame of the hook is the one whose handle
  \<open>handleRef\<close> holds, and that handle is not 0, which the cleanup would take for no
  handle.
\<close>

definition loop_inv :: "hook \<Rightarrow> bool" where
  "loop_inv w = (frames w \<subseteq> set_option (handleRef w) \<and> handleRef w \<noteq> Some 0)"

text \<open>
  Values the examples below use: the bounds of the concrete scenario, and the options
  of a caller that enables the hook and leaves \<open>intensity\<close>, \<open>onScroll\<close> and \<open>size\<close>
  unset.
\<close>

abbreviation scenario_bounds :: DOMRect where
  "scenario_bounds \<equiv> \<lparr>bottom = 300, left = 0, right = 500, top_y = 0\<rparr>"

abbreviation default_options :: Options where
  "default_options \<equiv>
     \<lparr>enabled = True, intensity_opt = None, onScroll_opt = None, size_opt = None\<rparr>"

text \<open>The options of a caller whose \<open>onScroll\<close> tears the hook down.\<close>

abbreviation teardown_options :: Options where
  "teardown_options \<equiv>
     \<lparr>enabled = True, intensity_opt = None, onScroll_opt = Some (\<lambda>x y. TearsDown),
      size_opt = None\<rparr>"

text \<open>
  A short life of the hook: the scroll parent is resolved, the hook is enabled with the
  given options, the pointer moves into the right gutter, and the first frame runs.
\<close>

abbreviation scenario_trace :: "Options \<Rightarrow> event list" where
  "scenario_trace options \<equiv>
     [ReferenceEffect (Some (\<lparr>scrollLeft = 0, scrollTop = 0, scrollWidth = 900, scrollHeight = 600\<rparr>,
        scenario_bounds)),
      EnabledEffect options, MouseMove 520 150, AnimationFrame 1]"

section \<open>Gutter classification\<close>

text \<open>
  C2. The pointer is in the top gutter exactly when \<open>positionY < top + size\<close>, in the
  bottom gutter exactly when \<open>positionY > bottom - size\<close>, in the left gutter exactly when
  \<open>positionX < left + size\<close> and in the right gutter exactly when
  \<open>positionX > right - size\<close>; the comparisons are strict, so a pointer on a gutter's
  boundary line is in none of them.
\<close>

theorem gutter_classification:
  "isEdgeTop parentRect sz positionY = (positionY < top_y parentRect + sz)
   \<and> isEdgeBottom parentRect sz positionY = (positionY > bottom parentRect - sz)
   \<and> isEdgeLeft parentRect sz positionX = (positionX < left parentRect + sz)
   \<and> isEdgeRight parentRect sz positionX = (positionX > right parentRect - sz)
   \<and> \<not> isEdgeTop parentRect sz (top_y parentRect + sz)
   \<and> \<not> isEdgeBottom parentRect sz (bottom parentRect - sz)
   \<and> \<not> isEdgeLeft parentRect sz (left parentRect + sz)
   \<and> \<not> isEdgeRight parentRect sz (right parentRect - sz)"
  by (simp add: isEdgeTop_def isEdgeBottom_def isEdgeLeft_def isEdgeRight_def
      edgeTop_def edgeBottom_def edgeLeft_def edgeRight_def)

section \<open>What a frame leaves alone\<close>

lemma checkStep_fields:
  "handleRef (checkStep w) = Some (frame_id w + 1)"
  "frames (checkStep w) = insert (frame_id w + 1) (frames w)"
  "frame_id (checkStep w) = frame_id w + 1"
  "parentRef (checkStep w) = parentRef w"
  "parentRectRef (checkStep w) = parentRectRef w"
  "positionXRef (checkStep w) = positionXRef w"
  "positionYRef (checkStep w) = positionYRef w"
  "mousemove (checkStep w) = mousemove w"
  "touchmove (checkStep w) = touchmove w"
  "closure (checkStep w) = closure w"
  "onScroll_calls (checkStep w) = onScroll_calls w"
  by (simp_all add: checkStep_def requestAnimationFrame_def)

lemma cleanup_fields:
  "handleRef (cleanup w) = None"
  "positionXRef (cleanup w) = None"
  "positionYRef (cleanup w) = None"
  "mousemove (cleanup w) = False"
  "touchmove (cleanup w) = False"
  "frame_id (cleanup w) = frame_id w"
  "parentRef (cleanup w) = parentRef w"
  "onScroll_calls (cleanup w) = onScroll_calls w"
  by (simp_all add: cleanup_def cancelAnimationFrame_def Let_def split: option.splits)

lemma cleanup_frames_subset: "frames (cleanup w) \<subseteq> frames w"
  by (auto simp: cleanup_def cancelAnimationFrame_def Let_def split: option.splits)

text \<open>Whatever the callback does, the scroll target keeps what the frame wrote.\<close>

lemma call_onScroll_fields:
  "parentRef (call_onScroll options x y w) = parentRef w"
  "onScroll_calls (call_onScroll options x y w) = onScroll_calls w @ [(x, y)]"
  "frame_id (call_onScroll options x y w) = frame_id w"
  by (simp_all add: call_onScroll_def cleanup_fields split: reaction.splits)

lemma call_onScroll_frames: "frames (call_onScroll options x y w) \<subseteq> frames w"
  using cleanup_frames_subset [of "w\<lparr>onScroll_calls := onScroll_calls w @ [(x, y)]\<rparr>"]
  by (simp add: call_onScroll_def split: reaction.splits)

lemma checkScroll_not_ready:
  "parentRef w = None \<or> parentRectRef w = None \<or> positionXRef w = None \<or> positionYRef w = None
   \<Longrightarrow> checkScroll options w = checkStep w"
  by (auto simp: checkScroll_def split: option.splits)

lemma checkScroll_ready:
  assumes "parentRef w = Some parent" "parentRectRef w = Some parentRect"
    "positionXRef w = Some positionX" "positionYRef w = Some positionY"
  shows "checkScroll options w =
    (if \<not> isEdgeBottom parentRect (gutter_size options) positionY
        \<and> \<not> isEdgeLeft parentRect (gutter_size options) positionX
        \<and> \<not> isEdgeRight parentRect (gutter_size options) positionX
        \<and> \<not> isEdgeTop parentRect (gutter_size options) positionY
     then checkStep w
     else checkStep (call_onScroll options positionX positionY (w\<lparr>
             parentRef := Some (parent\<lparr>
               scrollLeft := max 0 (min (Math_round
                 (nextScrollLeft parentRect (gutter_size options) (intensity options) positionX (scrollLeft parent))) (scrollWidth parent)),
               scrollTop := max 0 (min (Math_round
                 (nextScrollTop parentRect (gutter_size options) (intensity options) positionY (scrollTop parent))) (scrollHeight parent))\<rparr>)\<rparr>)))"
  using assms by (simp add: checkScroll_def Let_def)

lemma checkScroll_loop_fields:
  "handleRef (checkScroll options w) = Some (frame_id w + 1)"
  "frames (checkScroll options w) \<subseteq> insert (frame_id w + 1) (frames w)"
proof -
  show "handleRef (checkScroll options w) = Some (frame_id w + 1)"
    by (simp add: checkScroll_def checkStep_fields call_onScroll_fields Let_def
        split: option.splits)
  have "frames (call_onScroll options x y (w\<lparr>parentRef := p\<rparr>)) \<subseteq> frames w" for x y p
    using call_onScroll_frames [of options x y "w\<lparr>parentRef := p\<rparr>"] by simp
  then show "frames (checkScroll options w) \<subseteq> insert (frame_id w + 1) (frames w)"
    by (auto simp: checkScroll_def checkStep_fields call_onScroll_fields Let_def
        split: option.splits)
qed

text \<open>
  C6. A frame that finds the scroll target, the cached bounds or either pointer coordinate
  still null does nothing but schedule the next frame: the scroll target and the calls
  of \<open>onScroll\<close> are as before.
\<close>

theorem not_ready_frame_reschedules:
  assumes "parentRef w = None \<or> parentRectRef w = None \<or> positionXRef w = None \<or> positionYRef w = None"
  shows "checkScroll options w = checkStep w
    \<and> parentRef (checkScroll options w) = parentRef w
    \<and> onScroll_calls (checkScroll options w) = onScroll_calls w
    \<and> handleRef (checkScroll options w) = Some (frame_id w + 1)
    \<and> frames (checkScroll options w) = insert (frame_id w + 1) (frames w)"
  using checkScroll_not_ready [OF assms] by (simp add: checkStep_fields)

theorem not_ready_frame_witness:
  "checkScroll (closure initial) (initial\<lparr>positionXRef := Some 520, positionYRef := Some 150\<rparr>)
     = checkStep (initial\<lparr>positionXRef := Some 520, positionYRef := Some 150\<rparr>)
   \<and> parentRef (checkScroll (closure initial) (initial\<lparr>positionXRef := Some 520, positionYRef := Some 150\<rparr>)) = None
   \<and> onScroll_calls (checkScroll (closure initial) (initial\<lparr>positionXRef := Some 520, positionYRef := Some 150\<rparr>)) = []
   \<and> handleRef (checkScroll (closure initial) (initial\<lparr>positionXRef := Some 520, positionYRef := Some 150\<rparr>)) = Some 1"
  using not_ready_frame_reschedules
    [of "initial\<lparr>positionXRef := Some 520, positionYRef := Some 150\<rparr>" "closure initial"]
  by (simp add: initial_def checkStep_fields)

lemma no_gutter_inside:
  assumes "left parentRect + sz \<le> positionX" "positionX \<le> right parentRect - sz"
    "top_y parentRect + sz \<le> positionY" "positionY \<le> bottom parentRect - sz"
  shows "\<not> isEdgeBottom parentRect sz positionY \<and> \<not> isEdgeLeft parentRect sz positionX
    \<and> \<not> isEdgeRight parentRect sz positionX \<and> \<not> isEdgeTop parentRect sz positionY"
  using assms
  by (simp add: isEdgeTop_def isEdgeBottom_def isEdgeLeft_def isEdgeRight_def
      edgeTop_def edgeBottom_def edgeLeft_def edgeRight_def)

lemma checkScroll_no_gutter:
  assumes "parentRectRef w = Some parentRect"
    "positionXRef w = Some positionX" "positionYRef w = Some positionY"
    "\<not> isEdgeBottom parentRect (gutter_size options) positionY"
    "\<not> isEdgeLeft parentRect (gutter_size options) positionX"
    "\<not> isEdgeRight parentRect (gutter_size options) positionX"
    "\<not> isEdgeTop parentRect (gutter_size options) positionY"
  shows "checkScroll options w = checkStep w"
  using assms by (simp add: checkScroll_def Let_def split: option.splits)

text \<open>
  C3. When none of the four gutter predicates holds, and so at every pointer position
  strictly inside \<open>[left + size, right - size] \<times> [top + size, bottom - size]\<close>, the
  frame writes no scroll offset, does not call \<open>onScroll\<close> and only schedules the next
  frame.
\<close>

theorem no_gutter_frame_reschedules:
  assumes "parentRectRef w = Some parentRect"
    and "positionXRef w = Some positionX" and "positionYRef w = Some positionY"
    and "(\<not> isEdgeBottom parentRect (gutter_size options) positionY
          \<and> \<not> isEdgeLeft parentRect (gutter_size options) positionX
          \<and> \<not> isEdgeRight parentRect (gutter_size options) positionX
          \<and> \<not> isEdgeTop parentRect (gutter_size options) positionY)
       \<or> (left parentRect + gutter_size options < positionX
          \<and> positionX < right parentRect - gutter_size options
          \<and> top_y parentRect + gutter_size options < positionY
          \<and> positionY < bottom parentRect - gutter_size options)"
  shows "checkScroll options w = checkStep w
    \<and> parentRef (checkScroll options w) = parentRef w
    \<and> onScroll_calls (checkScroll options w) = onScroll_calls w
    \<and> handleRef (checkScroll options w) = Some (frame_id w + 1)
    \<and> frames (checkScroll options w) = insert (frame_id w + 1) (frames w)"
proof -
  have "\<not> isEdgeBottom parentRect (gutter_size options) positionY
      \<and> \<not> isEdgeLeft parentRect (gutter_size options) positionX
      \<and> \<not> isEdgeRight parentRect (gutter_size options) positionX
      \<and> \<not> isEdgeTop parentRect (gutter_size options) positionY"
    using assms(4) no_gutter_inside [of parentRect "gutter_size options" positionX positionY]
    by auto
  then have "checkScroll options w = checkStep w"
    using assms(1-3) by (simp add: checkScroll_no_gutter)
  then show ?thesis
    by (simp add: checkStep_fields)
qed

theorem no_gutter_frame_witness:
  "checkScroll default_options
     (initial\<lparr>parentRef := Some \<lparr>scrollLeft = 7 / 2, scrollTop = 0, scrollWidth = 900, scrollHeight = 600\<rparr>,
        parentRectRef := Some scenario_bounds,
        positionXRef := Some 250, positionYRef := Some 150\<rparr>)
   = checkStep (initial\<lparr>parentRef := Some \<lparr>scrollLeft = 7 / 2, scrollTop = 0, scrollWidth = 900, scrollHeight = 600\<rparr>,
        parentRectRef := Some scenario_bounds,
        positionXRef := Some 250, positionYRef := Some 150\<rparr>)"
  using no_gutter_frame_reschedules
    [of "initial\<lparr>parentRef := Some \<lparr>scrollLeft = 7 / 2, scrollTop = 0, scrollWidth = 900, scrollHeight = 600\<rparr>,
        parentRectRef := Some scenario_bounds,
        positionXRef := Some 250, positionYRef := Some 150\<rparr>"
      "scenario_bounds" 250 150
      "default_options"]
  by (simp add: gutter_size_def)

section \<open>The concrete scenario\<close>

text \<open>
  C1. With bounds \<open>{top: 0, left: 0, right: 500, bottom: 300}\<close>, size 50, intensity 0.2
  and the pointer at \<open>(520, 150)\<close>: the right edge is 450, the pointer is in the right
  gutter, the horizontal delta is 14, the frame writes \<open>scrollLeft\<close> as the old value
  plus 14, rounded and clamped to \<open>[0, scrollWidth]\<close>, and calls \<open>onScroll(520, 150)\<close>.
\<close>

theorem concrete_right_gutter_frame:
  "edgeRight scenario_bounds 50 = 450
   \<and> isEdgeRight scenario_bounds 50 520
   \<and> (520 - edgeRight scenario_bounds 50) * (2 / 10) = 14
   \<and> gutter_size \<lparr>enabled = en, intensity_opt = Some (2 / 10), onScroll_opt = cb, size_opt = Some 50\<rparr> = 50
   \<and> intensity \<lparr>enabled = en, intensity_opt = Some (2 / 10), onScroll_opt = cb, size_opt = Some 50\<rparr> = 2 / 10
   \<and> checkScroll \<lparr>enabled = en, intensity_opt = Some (2 / 10), onScroll_opt = cb, size_opt = Some 50\<rparr>
        (w\<lparr>parentRef := Some parent,
           parentRectRef := Some scenario_bounds,
           positionXRef := Some 520, positionYRef := Some 150\<rparr>)
      = checkStep
        (case onScroll \<lparr>enabled = en, intensity_opt = Some (2 / 10), onScroll_opt = cb, size_opt = Some 50\<rparr>
                520 150 of
           Returns \<Rightarrow>
             w\<lparr>parentRef := Some parent,
               parentRectRef := Some scenario_bounds,
               positionXRef := Some 520, positionYRef := Some 150,
               parentRef := Some (parent\<lparr>
                 scrollLeft := max 0 (min (Math_round (scrollLeft parent + 14)) (scrollWidth parent)),
                 scrollTop := max 0 (min (Math_round (scrollTop parent)) (scrollHeight parent))\<rparr>),
               onScroll_calls := onScroll_calls w @ [(520, 150)]\<rparr>
         | TearsDown \<Rightarrow>
             cleanup (w\<lparr>parentRef := Some parent,
               parentRectRef := Some scenario_bounds,
               positionXRef := Some 520, positionYRef := Some 150,
               parentRef := Some (parent\<lparr>
                 scrollLeft := max 0 (min (Math_round (scrollLeft parent + 14)) (scrollWidth parent)),
                 scrollTop := max 0 (min (Math_round (scrollTop parent)) (scrollHeight parent))\<rparr>),
               onScroll_calls := onScroll_calls w @ [(520, 150)]\<rparr>))
   \<and> parentRef (checkScroll \<lparr>enabled = en, intensity_opt = Some (2 / 10), onScroll_opt = cb, size_opt = Some 50\<rparr>
        (w\<lparr>parentRef := Some parent,
           parentRectRef := Some scenario_bounds,
           positionXRef := Some 520, positionYRef := Some 150\<rparr>))
      = Some (parent\<lparr>
           scrollLeft := max 0 (min (Math_round (scrollLeft parent + 14)) (scrollWidth parent)),
           scrollTop := max 0 (min (Math_round (scrollTop parent)) (scrollHeight parent))\<rparr>)
   \<and> onScroll_calls (checkScroll \<lparr>enabled = en, intensity_opt = Some (2 / 10), onScroll_opt = cb, size_opt = Some 50\<rparr>
        (w\<lparr>parentRef := Some parent,
           parentRectRef := Some scenario_bounds,
           positionXRef := Some 520, positionYRef := Some 150\<rparr>))
      = onScroll_calls w @ [(520, 150)]"
proof -
  let ?options = "\<lparr>enabled = en, intensity_opt = Some (2 / 10), onScroll_opt = cb, size_opt = Some 50\<rparr>"
  let ?w = "w\<lparr>parentRef := Some parent, parentRectRef := Some scenario_bounds,
    positionXRef := Some 520, positionYRef := Some 150\<rparr>"
  have frame: "checkScroll ?options ?w = checkStep (call_onScroll ?options 520 150
      (?w\<lparr>parentRef := Some (parent\<lparr>
         scrollLeft := max 0 (min (Math_round (scrollLeft parent + 14)) (scrollWidth parent)),
         scrollTop := max 0 (min (Math_round (scrollTop parent)) (scrollHeight parent))\<rparr>)\<rparr>))"
    by (simp add: checkScroll_def Let_def gutter_size_def intensity_def nextScrollLeft_def
      nextScrollTop_def isEdgeTop_def isEdgeBottom_def isEdgeLeft_def isEdgeRight_def
      edgeTop_def edgeBottom_def edgeLeft_def edgeRight_def)
  show ?thesis
    unfolding frame
    by (simp add: checkStep_fields call_onScroll_fields gutter_size_def intensity_def
        isEdgeRight_def edgeRight_def)
      (simp add: call_onScroll_def split: reaction.splits)
qed

section \<open>The lifecycle\<close>

text \<open>On a hook that never ran the effect, the cleanup changes nothing.\<close>

lemma cleanup_initial: "cleanup initial = initial"
  by (simp add: cleanup_def initial_def)

lemma loop_inv_initial: "loop_inv initial"
  by (simp add: loop_inv_def initial_def)

lemma cleanup_frames:
  "loop_inv w \<Longrightarrow> frames (cleanup w) = {}"
  by (cases "handleRef w") (auto simp: cleanup_def cancelAnimationFrame_def loop_inv_def Let_def)

lemma loop_inv_cleanup: "loop_inv w \<Longrightarrow> loop_inv (cleanup w)"
  by (simp add: loop_inv_def cleanup_frames cleanup_fields)

lemma loop_inv_enabledEffect:
  assumes "loop_inv w" "frames w = {}"
  shows "loop_inv (enabledEffect options w)"
  using assms by (simp add: loop_inv_def enabledEffect_def checkStep_fields)

lemma loop_inv_frame:
  assumes "loop_inv w" "handle \<in> frames w"
  shows "loop_inv (checkScroll options (w\<lparr>frames := frames w - {handle}\<rparr>))"
proof -
  from assms have "frames w - {handle} = {}"
    by (cases "handleRef w") (auto simp: loop_inv_def)
  then have gone: "w\<lparr>frames := frames w - {handle}\<rparr> = w\<lparr>frames := {}\<rparr>"
    by simp
  have "frames (checkScroll options (w\<lparr>frames := {}\<rparr>)) \<subseteq> {frame_id w + 1}"
    using checkScroll_loop_fields(2) [of options "w\<lparr>frames := {}\<rparr>"] by simp
  then show ?thesis
    unfolding gone by (simp add: loop_inv_def checkScroll_loop_fields(1))
qed

lemma loop_inv_dispatch:
  assumes "loop_inv w"
  shows "loop_inv (dispatch w e)"
proof (cases e)
  case (ReferenceEffect reference)
  with assms show ?thesis
    by (auto simp: dispatch_def referenceEffect_def loop_inv_def split: option.splits)
next
  case (EnabledEffect options)
  with assms show ?thesis
    by (simp add: dispatch_def loop_inv_enabledEffect loop_inv_cleanup cleanup_frames)
next
  case Unmount
  with assms show ?thesis
    by (simp add: dispatch_def loop_inv_cleanup)
next
  case (AnimationFrame handle)
  with assms show ?thesis
    by (simp add: dispatch_def loop_inv_frame)
next
  case (MouseMove x y)
  with assms show ?thesis
    by (simp add: dispatch_def handleMouseMove_def loop_inv_def)
next
  case (TouchMove targetTouches)
  with assms show ?thesis
    by (cases targetTouches) (simp_all add: dispatch_def handleTouchMove_def loop_inv_def)
qed

lemma loop_inv_run: "loop_inv w \<Longrightarrow> loop_inv (run es w)"
  unfolding run_def by (induction es arbitrary: w) (simp_all add: loop_inv_dispatch)

lemma idle_dispatch:
  assumes "frames w = {}" "\<not> mousemove w" "\<not> touchmove w" "is_delivery e"
  shows "dispatch w e = w"
  using assms by (cases e) (simp_all add: dispatch_def)

lemma idle_run:
  assumes "frames w = {}" "\<not> mousemove w" "\<not> touchmove w" "list_all is_delivery es"
  shows "run es w = w"
  using assms unfolding run_def by (induction es) (simp_all add: idle_dispatch)

text \<open>
  A teardown that runs as a task of its own stops the loop. In every state the hook can
  reach, the scheduled frame is the one whose handle \<open>handleRef\<close> holds. When the effect
  on \<open>enabled\<close> runs again with \<open>enabled\<close> false, or the component unmounts, that frame is
  cancelled, the handle and the pointer position are reset to null and both listeners
  are removed; whatever frames, mouse moves and touch moves the host delivers
  afterwards, the state stays as the cleanup left it.
\<close>

lemma cleanup_task_stops_loop:
  assumes "w = run es initial"
    and "e = Unmount \<or> e = EnabledEffect options \<and> \<not> enabled options"
    and "w' = dispatch w e"
  shows "frames w \<subseteq> set_option (handleRef w)
    \<and> frames w' = {} \<and> handleRef w' = None
    \<and> positionXRef w' = None \<and> positionYRef w' = None
    \<and> \<not> mousemove w' \<and> \<not> touchmove w'
    \<and> parentRef w' = parentRef w \<and> onScroll_calls w' = onScroll_calls w
    \<and> (\<forall>es'. list_all is_delivery es' \<longrightarrow> run es' w' = w')"
proof -
  have inv: "loop_inv w"
    using assms(1) by (simp add: loop_inv_run loop_inv_initial)
  have w': "w' = cleanup w"
    using assms(2,3) by (auto simp: dispatch_def enabledEffect_def)
  have idle: "frames w' = {}" "\<not> mousemove w'" "\<not> touchmove w'"
    using inv by (simp_all add: w' cleanup_frames cleanup_fields)
  show ?thesis
    using inv idle by (simp add: idle_run) (simp add: w' cleanup_fields loop_inv_def)
qed

text \<open>
  C9 fails on the code when the teardown runs inside \<open>onScroll\<close>. The hook is armed with
  a callback that tears it down, the pointer is in the right gutter and the first
  frame runs: the frame writes the scroll offset and calls \<open>onScroll\<close>, the cleanup runs
  inside the call (pointer position null, listeners removed), and then the frame
  schedules frame 2 and stores its handle. Nothing cancels that frame: when it runs it
  schedules frame 3, and so on. With a callback that only returns, the same frame
  followed by an unmount leaves no frame scheduled.
\<close>

theorem teardown_inside_onScroll_keeps_loop:
  "onScroll_calls (run (scenario_trace teardown_options) initial) = [(520, 150)]
   \<and> positionXRef (run (scenario_trace teardown_options) initial) = None
   \<and> positionYRef (run (scenario_trace teardown_options) initial) = None
   \<and> \<not> mousemove (run (scenario_trace teardown_options) initial)
   \<and> \<not> touchmove (run (scenario_trace teardown_options) initial)
   \<and> frames (run (scenario_trace teardown_options) initial) = {2}
   \<and> handleRef (run (scenario_trace teardown_options) initial) = Some 2
   \<and> frames (run (scenario_trace teardown_options @ [AnimationFrame 2]) initial) = {3}
   \<and> handleRef (run (scenario_trace teardown_options @ [AnimationFrame 2]) initial) = Some 3
   \<and> frames (run (scenario_trace default_options @ [Unmount]) initial) = {}
   \<and> handleRef (run (scenario_trace default_options @ [Unmount]) initial) = None"
  by (simp add: run_def dispatch_def initial_def referenceEffect_def enabledEffect_def
      cleanup_def cancelAnimationFrame_def handleMouseMove_def checkStep_def
      requestAnimationFrame_def checkScroll_def call_onScroll_def onScroll_def noop_def
      Let_def gutter_size_def intensity_def
      isEdgeTop_def isEdgeBottom_def isEdgeLeft_def isEdgeRight_def
      edgeTop_def edgeBottom_def edgeLeft_def edgeRight_def)

section \<open>What a frame in a gutter writes\<close>

text \<open>\<open>Math.round\<close> moves a number by at most one half.\<close>

lemma Math_round_nearest: "\<bar>Math_round x - x\<bar> \<le> 1 / 2"
  unfolding Math_round_def by linarith

text \<open>
  C5. Whatever target offset a frame computes, the offsets it writes lie in
  \<open>[0, scrollWidth]\<close> and \<open>[0, scrollHeight]\<close>, ends included. The scroll target's
  \<open>scrollWidth\<close> and \<open>scrollHeight\<close> are taken to be non-negative, as the DOM has them.
\<close>

theorem written_offsets_clamped:
  assumes "parentRef w = Some parent" and "parentRectRef w = Some parentRect"
    and "positionXRef w = Some positionX" and "positionYRef w = Some positionY"
    and "isEdgeBottom parentRect (gutter_size options) positionY
       \<or> isEdgeLeft parentRect (gutter_size options) positionX
       \<or> isEdgeRight parentRect (gutter_size options) positionX
       \<or> isEdgeTop parentRect (gutter_size options) positionY"
    and "0 \<le> scrollWidth parent" and "0 \<le> scrollHeight parent"
  shows "\<exists>parent'. parentRef (checkScroll options w) = Some parent'
    \<and> scrollWidth parent' = scrollWidth parent \<and> scrollHeight parent' = scrollHeight parent
    \<and> 0 \<le> scrollLeft parent' \<and> scrollLeft parent' \<le> scrollWidth parent'
    \<and> 0 \<le> scrollTop parent' \<and> scrollTop parent' \<le> scrollHeight parent'"
  using assms(5-7) unfolding checkScroll_ready [OF assms(1-4)]
  by (auto simp: checkStep_fields call_onScroll_fields)

theorem written_offsets_clamped_witness:
  "\<exists>parent'. parentRef (checkScroll default_options
      (initial\<lparr>parentRef := Some \<lparr>scrollLeft = 595, scrollTop = 1 / 4, scrollWidth = 600, scrollHeight = 400\<rparr>,
        parentRectRef := Some scenario_bounds,
        positionXRef := Some 1520, positionYRef := Some (- 150)\<rparr>)) = Some parent'
     \<and> 0 \<le> scrollLeft parent' \<and> scrollLeft parent' \<le> 600
     \<and> 0 \<le> scrollTop parent' \<and> scrollTop parent' \<le> 400"
  using written_offsets_clamped
    [of "initial\<lparr>parentRef := Some \<lparr>scrollLeft = 595, scrollTop = 1 / 4, scrollWidth = 600, scrollHeight = 400\<rparr>,
        parentRectRef := Some scenario_bounds,
        positionXRef := Some 1520, positionYRef := Some (- 150)\<rparr>"
      "\<lparr>scrollLeft = 595, scrollTop = 1 / 4, scrollWidth = 600, scrollHeight = 400\<rparr>"
      scenario_bounds 1520 "- 150" default_options]
  by (auto simp: gutter_size_def isEdgeRight_def edgeRight_def)

text \<open>
  C10. A frame in which at least one gutter predicate holds writes both \<open>scrollLeft\<close> and
  \<open>scrollTop\<close>; on an axis with no gutter predicate it writes the current offset, rounded
  and clamped. So a frame in the right gutter alone turns a \<open>scrollTop\<close> of 10.5 into 11,
  and \<open>onScroll\<close> is called also when both written offsets equal the old ones.
\<close>

theorem gutter_frame_writes_both_axes:
  "(parentRef w = Some parent \<and> parentRectRef w = Some parentRect
      \<and> positionXRef w = Some positionX \<and> positionYRef w = Some positionY
      \<and> (isEdgeBottom parentRect (gutter_size options) positionY
        \<or> isEdgeLeft parentRect (gutter_size options) positionX
        \<or> isEdgeRight parentRect (gutter_size options) positionX
        \<or> isEdgeTop parentRect (gutter_size options) positionY) \<longrightarrow>
     (\<exists>parent'. parentRef (checkScroll options w) = Some parent'
        \<and> scrollLeft parent' = max 0 (min (Math_round (nextScrollLeft parentRect
             (gutter_size options) (intensity options) positionX (scrollLeft parent))) (scrollWidth parent))
        \<and> scrollTop parent' = max 0 (min (Math_round (nextScrollTop parentRect
             (gutter_size options) (intensity options) positionY (scrollTop parent))) (scrollHeight parent))
        \<and> (\<not> isEdgeLeft parentRect (gutter_size options) positionX
            \<and> \<not> isEdgeRight parentRect (gutter_size options) positionX \<longrightarrow>
           scrollLeft parent' = max 0 (min (Math_round (scrollLeft parent)) (scrollWidth parent)))
        \<and> (\<not> isEdgeTop parentRect (gutter_size options) positionY
            \<and> \<not> isEdgeBottom parentRect (gutter_size options) positionY \<longrightarrow>
           scrollTop parent' = max 0 (min (Math_round (scrollTop parent)) (scrollHeight parent))))
     \<and> onScroll_calls (checkScroll options w) = onScroll_calls w @ [(positionX, positionY)])
   \<and> checkScroll default_options
        (initial\<lparr>parentRef := Some \<lparr>scrollLeft = 0, scrollTop = 21 / 2, scrollWidth = 900, scrollHeight = 600\<rparr>,
           parentRectRef := Some scenario_bounds,
           positionXRef := Some 520, positionYRef := Some 150\<rparr>)
      = checkStep
        (initial\<lparr>parentRef := Some \<lparr>scrollLeft = 14, scrollTop = 11, scrollWidth = 900, scrollHeight = 600\<rparr>,
           parentRectRef := Some scenario_bounds,
           positionXRef := Some 520, positionYRef := Some 150,
           onScroll_calls := [(520, 150)]\<rparr>)
   \<and> checkScroll default_options
        (initial\<lparr>parentRef := Some \<lparr>scrollLeft = 900, scrollTop = 0, scrollWidth = 900, scrollHeight = 600\<rparr>,
           parentRectRef := Some scenario_bounds,
           positionXRef := Some 520, positionYRef := Some 150\<rparr>)
      = checkStep
        (initial\<lparr>parentRef := Some \<lparr>scrollLeft = 900, scrollTop = 0, scrollWidth = 900, scrollHeight = 600\<rparr>,
           parentRectRef := Some scenario_bounds,
           positionXRef := Some 520, positionYRef := Some 150,
           onScroll_calls := [(520, 150)]\<rparr>)"
proof -
  have general: "\<exists>parent'. parentRef (checkScroll options w) = Some parent'
        \<and> scrollLeft parent' = max 0 (min (Math_round (nextScrollLeft parentRect
             (gutter_size options) (intensity options) positionX (scrollLeft parent))) (scrollWidth parent))
        \<and> scrollTop parent' = max 0 (min (Math_round (nextScrollTop parentRect
             (gutter_size options) (intensity options) positionY (scrollTop parent))) (scrollHeight parent))
        \<and> (\<not> isEdgeLeft parentRect (gutter_size options) positionX
            \<and> \<not> isEdgeRight parentRect (gutter_size options) positionX \<longrightarrow>
           scrollLeft parent' = max 0 (min (Math_round (scrollLeft parent)) (scrollWidth parent)))
        \<and> (\<not> isEdgeTop parentRect (gutter_size options) positionY
            \<and> \<not> isEdgeBottom parentRect (gutter_size options) positionY \<longrightarrow>
           scrollTop parent' = max 0 (min (Math_round (scrollTop parent)) (scrollHeight parent)))"
    and calls: "onScroll_calls (checkScroll options w) = onScroll_calls w @ [(positionX, positionY)]"
    if ready: "parentRef w = Some parent" "parentRectRef w = Some parentRect"
      "positionXRef w = Some positionX" "positionYRef w = Some positionY"
    and gutter: "isEdgeBottom parentRect (gutter_size options) positionY
        \<or> isEdgeLeft parentRect (gutter_size options) positionX
        \<or> isEdgeRight parentRect (gutter_size options) positionX
        \<or> isEdgeTop parentRect (gutter_size options) positionY"
    using gutter unfolding checkScroll_ready [OF ready]
    by (auto simp: checkStep_fields call_onScroll_fields nextScrollLeft_def nextScrollTop_def)
  have fractional: "checkScroll default_options
        (initial\<lparr>parentRef := Some \<lparr>scrollLeft = 0, scrollTop = 21 / 2, scrollWidth = 900, scrollHeight = 600\<rparr>,
           parentRectRef := Some scenario_bounds,
           positionXRef := Some 520, positionYRef := Some 150\<rparr>)
      = checkStep
        (initial\<lparr>parentRef := Some \<lparr>scrollLeft = 14, scrollTop = 11, scrollWidth = 900, scrollHeight = 600\<rparr>,
           parentRectRef := Some scenario_bounds,
           positionXRef := Some 520, positionYRef := Some 150,
           onScroll_calls := [(520, 150)]\<rparr>)"
    by (simp add: checkScroll_def Let_def gutter_size_def intensity_def nextScrollLeft_def
      nextScrollTop_def isEdgeTop_def isEdgeBottom_def isEdgeLeft_def isEdgeRight_def
      edgeTop_def edgeBottom_def edgeLeft_def edgeRight_def Math_round_def initial_def
      call_onScroll_def onScroll_def noop_def)
  have unchanged: "checkScroll default_options
        (initial\<lparr>parentRef := Some \<lparr>scrollLeft = 900, scrollTop = 0, scrollWidth = 900, scrollHeight = 600\<rparr>,
           parentRectRef := Some scenario_bounds,
           positionXRef := Some 520, positionYRef := Some 150\<rparr>)
      = checkStep
        (initial\<lparr>parentRef := Some \<lparr>scrollLeft = 900, scrollTop = 0, scrollWidth = 900, scrollHeight = 600\<rparr>,
           parentRectRef := Some scenario_bounds,
           positionXRef := Some 520, positionYRef := Some 150,
           onScroll_calls := [(520, 150)]\<rparr>)"
    by (simp add: checkScroll_def Let_def gutter_size_def intensity_def nextScrollLeft_def
      nextScrollTop_def isEdgeTop_def isEdgeBottom_def isEdgeLeft_def isEdgeRight_def
      edgeTop_def edgeBottom_def edgeLeft_def edgeRight_def Math_round_def initial_def
      call_onScroll_def onScroll_def noop_def)
  show ?thesis
    using general calls fractional unchanged by blast
qed

theorem gutter_frame_writes_both_axes_witness:
  "(\<exists>parent'. parentRef (checkScroll default_options
        (initial\<lparr>parentRef := Some \<lparr>scrollLeft = 0, scrollTop = 21 / 2, scrollWidth = 900, scrollHeight = 600\<rparr>,
           parentRectRef := Some scenario_bounds,
           positionXRef := Some 520, positionYRef := Some 150\<rparr>)) = Some parent'
      \<and> scrollLeft parent' = 14 \<and> scrollTop parent' = 11)
   \<and> onScroll_calls (checkScroll default_options
        (initial\<lparr>parentRef := Some \<lparr>scrollLeft = 0, scrollTop = 21 / 2, scrollWidth = 900, scrollHeight = 600\<rparr>,
           parentRectRef := Some scenario_bounds,
           positionXRef := Some 520, positionYRef := Some 150\<rparr>)) = [(520, 150)]"
  using gutter_frame_writes_both_axes
    [of "initial\<lparr>parentRef := Some \<lparr>scrollLeft = 0, scrollTop = 21 / 2, scrollWidth = 900, scrollHeight = 600\<rparr>,
           parentRectRef := Some scenario_bounds,
           positionXRef := Some 520, positionYRef := Some 150\<rparr>"
      "\<lparr>scrollLeft = 0, scrollTop = 21 / 2, scrollWidth = 900, scrollHeight = 600\<rparr>"
      "scenario_bounds" 520 150
      "default_options"]
  by (auto simp: gutter_size_def intensity_def nextScrollLeft_def nextScrollTop_def
      isEdgeTop_def isEdgeBottom_def isEdgeLeft_def isEdgeRight_def
      edgeTop_def edgeBottom_def edgeLeft_def edgeRight_def Math_round_def initial_def)

section \<open>The deltas\<close>

text \<open>
  C7. On each axis a frame applies at most one delta: the new offset is the old one, the
  old one less the left (top) delta, or the old one plus the right (bottom) delta, and
  where both predicates of an axis hold only the left (top) delta is applied. When
  \<open>2 * size < right - left\<close> no position is in the left and the right gutter at once,
  and likewise for top and bottom when \<open>2 * size < bottom - top\<close>.
\<close>

theorem one_delta_per_axis:
  "nextScrollLeft parentRect sz k positionX sl
     \<in> {sl, sl - (edgeLeft parentRect sz - positionX) * k, sl + (positionX - edgeRight parentRect sz) * k}
   \<and> nextScrollTop parentRect sz k positionY st
     \<in> {st, st - (edgeTop parentRect sz - positionY) * k, st + (positionY - edgeBottom parentRect sz) * k}
   \<and> (isEdgeLeft parentRect sz positionX \<and> isEdgeRight parentRect sz positionX \<longrightarrow>
        nextScrollLeft parentRect sz k positionX sl = sl - (edgeLeft parentRect sz - positionX) * k)
   \<and> (isEdgeTop parentRect sz positionY \<and> isEdgeBottom parentRect sz positionY \<longrightarrow>
        nextScrollTop parentRect sz k positionY st = st - (edgeTop parentRect sz - positionY) * k)
   \<and> (2 * sz < right parentRect - left parentRect \<longrightarrow>
        \<not> (isEdgeLeft parentRect sz positionX \<and> isEdgeRight parentRect sz positionX))
   \<and> (2 * sz < bottom parentRect - top_y parentRect \<longrightarrow>
        \<not> (isEdgeTop parentRect sz positionY \<and> isEdgeBottom parentRect sz positionY))"
  by (simp add: nextScrollLeft_def nextScrollTop_def isEdgeTop_def isEdgeBottom_def
      isEdgeLeft_def isEdgeRight_def edgeTop_def edgeBottom_def edgeLeft_def edgeRight_def)

theorem one_delta_per_axis_witness:
  "nextScrollLeft \<lparr>bottom = 300, left = 0, right = 80, top_y = 0\<rparr> 50 (2 / 10) 40 100 = 98
   \<and> isEdgeLeft \<lparr>bottom = 300, left = 0, right = 80, top_y = 0\<rparr> 50 40
   \<and> isEdgeRight \<lparr>bottom = 300, left = 0, right = 80, top_y = 0\<rparr> 50 40
   \<and> nextScrollTop \<lparr>bottom = 80, left = 0, right = 500, top_y = 0\<rparr> 50 (2 / 10) 40 100 = 98
   \<and> \<not> (isEdgeLeft scenario_bounds 50 520
        \<and> isEdgeRight scenario_bounds 50 520)
   \<and> \<not> (isEdgeTop scenario_bounds 50 10
        \<and> isEdgeBottom scenario_bounds 50 10)"
  using one_delta_per_axis [of "\<lparr>bottom = 300, left = 0, right = 80, top_y = 0\<rparr>" 50 "2 / 10" 40 100 40 100]
    one_delta_per_axis [of "\<lparr>bottom = 80, left = 0, right = 500, top_y = 0\<rparr>" 50 "2 / 10" 40 100 40 100]
    one_delta_per_axis [of "scenario_bounds" 50 "2 / 10" 520 0 10 0]
  by (simp add: isEdgeTop_def isEdgeBottom_def isEdgeLeft_def isEdgeRight_def
      edgeTop_def edgeBottom_def edgeLeft_def edgeRight_def)

lemma delta_left:
  "isEdgeLeft parentRect sz positionX \<Longrightarrow>
   nextScrollLeft parentRect sz k positionX sl - sl = - ((edgeLeft parentRect sz - positionX) * k)"
  by (simp add: nextScrollLeft_def)

lemma delta_right:
  "isEdgeRight parentRect sz positionX \<Longrightarrow> \<not> isEdgeLeft parentRect sz positionX \<Longrightarrow>
   nextScrollLeft parentRect sz k positionX sl - sl = (positionX - edgeRight parentRect sz) * k"
  by (simp add: nextScrollLeft_def)

lemma delta_top:
  "isEdgeTop parentRect sz positionY \<Longrightarrow>
   nextScrollTop parentRect sz k positionY st - st = - ((edgeTop parentRect sz - positionY) * k)"
  by (simp add: nextScrollTop_def)

lemma delta_bottom:
  "isEdgeBottom parentRect sz positionY \<Longrightarrow> \<not> isEdgeTop parentRect sz positionY \<Longrightarrow>
   nextScrollTop parentRect sz k positionY st - st = (positionY - edgeBottom parentRect sz) * k"
  by (simp add: nextScrollTop_def)

lemma delta_none:
  "\<not> isEdgeLeft parentRect sz positionX \<Longrightarrow> \<not> isEdgeRight parentRect sz positionX \<Longrightarrow>
   nextScrollLeft parentRect sz k positionX sl - sl = 0"
  "\<not> isEdgeTop parentRect sz positionY \<Longrightarrow> \<not> isEdgeBottom parentRect sz positionY \<Longrightarrow>
   nextScrollTop parentRect sz k positionY st - st = 0"
  by (simp_all add: nextScrollLeft_def nextScrollTop_def)

lemma boundary_outside:
  "\<not> isEdgeLeft parentRect sz (edgeLeft parentRect sz)"
  "\<not> isEdgeRight parentRect sz (edgeRight parentRect sz)"
  "\<not> isEdgeTop parentRect sz (edgeTop parentRect sz)"
  "\<not> isEdgeBottom parentRect sz (edgeBottom parentRect sz)"
  by (simp_all add: isEdgeLeft_def isEdgeRight_def isEdgeTop_def isEdgeBottom_def)

lemma ramp_outward:
  fixes k a b :: real
  assumes "0 < k" "0 < a" "a < b"
  shows "\<bar>- (a * k)\<bar> < \<bar>- (b * k)\<bar>" and "\<bar>a * k\<bar> < \<bar>b * k\<bar>"
proof -
  have "0 < a * k" "0 < b * k" "a * k < b * k"
    using assms by simp_all
  then show "\<bar>- (a * k)\<bar> < \<bar>- (b * k)\<bar>" and "\<bar>a * k\<bar> < \<bar>b * k\<bar>"
    by simp_all
qed

lemma ramp_left_mono:
  assumes "0 < k" "isEdgeLeft parentRect sz x" "x' < x"
  shows "\<bar>nextScrollLeft parentRect sz k x sl - sl\<bar> < \<bar>nextScrollLeft parentRect sz k x' sl - sl\<bar>"
proof -
  have x': "isEdgeLeft parentRect sz x'"
    using assms(2,3) by (simp add: isEdgeLeft_def)
  have "0 < edgeLeft parentRect sz - x" "edgeLeft parentRect sz - x < edgeLeft parentRect sz - x'"
    using assms(2,3) by (simp_all add: isEdgeLeft_def)
  then show ?thesis
    using ramp_outward(1) [OF assms(1)] by (simp add: delta_left assms(2) x')
qed

lemma ramp_right_mono:
  assumes "0 < k" "isEdgeRight parentRect sz x" "\<not> isEdgeLeft parentRect sz x" "x < x'"
  shows "\<bar>nextScrollLeft parentRect sz k x sl - sl\<bar> < \<bar>nextScrollLeft parentRect sz k x' sl - sl\<bar>"
proof -
  have x': "isEdgeRight parentRect sz x'" "\<not> isEdgeLeft parentRect sz x'"
    using assms(2-4) by (simp_all add: isEdgeRight_def isEdgeLeft_def)
  have "0 < x - edgeRight parentRect sz" "x - edgeRight parentRect sz < x' - edgeRight parentRect sz"
    using assms(2,4) by (simp_all add: isEdgeRight_def)
  then show ?thesis
    using ramp_outward(2) [OF assms(1)] by (simp add: delta_right assms(2,3) x')
qed

lemma ramp_top_mono:
  assumes "0 < k" "isEdgeTop parentRect sz y" "y' < y"
  shows "\<bar>nextScrollTop parentRect sz k y st - st\<bar> < \<bar>nextScrollTop parentRect sz k y' st - st\<bar>"
proof -
  have y': "isEdgeTop parentRect sz y'"
    using assms(2,3) by (simp add: isEdgeTop_def)
  have "0 < edgeTop parentRect sz - y" "edgeTop parentRect sz - y < edgeTop parentRect sz - y'"
    using assms(2,3) by (simp_all add: isEdgeTop_def)
  then show ?thesis
    using ramp_outward(1) [OF assms(1)] by (simp add: delta_top assms(2) y')
qed

lemma ramp_bottom_mono:
  assumes "0 < k" "isEdgeBottom parentRect sz y" "\<not> isEdgeTop parentRect sz y" "y < y'"
  shows "\<bar>nextScrollTop parentRect sz k y st - st\<bar> < \<bar>nextScrollTop parentRect sz k y' st - st\<bar>"
proof -
  have y': "isEdgeBottom parentRect sz y'" "\<not> isEdgeTop parentRect sz y'"
    using assms(2-4) by (simp_all add: isEdgeBottom_def isEdgeTop_def)
  have "0 < y - edgeBottom parentRect sz" "y - edgeBottom parentRect sz < y' - edgeBottom parentRect sz"
    using assms(2,4) by (simp_all add: isEdgeBottom_def)
  then show ?thesis
    using ramp_outward(2) [OF assms(1)] by (simp add: delta_bottom assms(2,3) y')
qed

lemma ramp_left_unbounded:
  assumes "0 < k"
  shows "\<exists>x. isEdgeLeft parentRect sz x \<and> m < \<bar>nextScrollLeft parentRect sz k x sl - sl\<bar>"
proof -
  define d where "d = (\<bar>m\<bar> + 1) / k"
  have d: "0 < d" "d * k = \<bar>m\<bar> + 1"
    using assms by (simp_all add: d_def)
  have inside: "isEdgeLeft parentRect sz (edgeLeft parentRect sz - d)"
    using d(1) by (simp add: isEdgeLeft_def)
  have "nextScrollLeft parentRect sz k (edgeLeft parentRect sz - d) sl - sl = - (d * k)"
    using delta_left [OF inside] by simp
  then have "m < \<bar>nextScrollLeft parentRect sz k (edgeLeft parentRect sz - d) sl - sl\<bar>"
    using d(2) by simp
  with inside show ?thesis by blast
qed

lemma ramp_right_unbounded:
  assumes "0 < k"
  shows "\<exists>x. isEdgeRight parentRect sz x \<and> \<not> isEdgeLeft parentRect sz x
    \<and> m < \<bar>nextScrollLeft parentRect sz k x sl - sl\<bar>"
proof -
  define q where "q = (\<bar>m\<bar> + 1) / k"
  define g where "g = \<bar>edgeLeft parentRect sz - edgeRight parentRect sz\<bar>"
  define d where "d = q + g"
  have q: "0 < q" "q * k = \<bar>m\<bar> + 1"
    using assms by (simp_all add: q_def)
  have g: "0 \<le> g" "edgeLeft parentRect sz - edgeRight parentRect sz \<le> g"
    by (simp_all add: g_def)
  have "0 \<le> g * k"
    using g(1) assms by simp
  then have "q * k \<le> d * k"
    by (simp add: d_def distrib_right)
  then have d: "0 < d" "\<bar>m\<bar> + 1 \<le> d * k" "edgeLeft parentRect sz - edgeRight parentRect sz \<le> d"
    using q g by (simp_all add: d_def)
  have inside: "isEdgeRight parentRect sz (edgeRight parentRect sz + d)"
    "\<not> isEdgeLeft parentRect sz (edgeRight parentRect sz + d)"
    using d(1,3) by (simp_all add: isEdgeRight_def isEdgeLeft_def)
  have "nextScrollLeft parentRect sz k (edgeRight parentRect sz + d) sl - sl = d * k"
    using delta_right [OF inside] by simp
  then have "m < \<bar>nextScrollLeft parentRect sz k (edgeRight parentRect sz + d) sl - sl\<bar>"
    using d(2) by simp
  with inside show ?thesis by blast
qed

lemma ramp_top_unbounded:
  assumes "0 < k"
  shows "\<exists>y. isEdgeTop parentRect sz y \<and> m < \<bar>nextScrollTop parentRect sz k y st - st\<bar>"
proof -
  define d where "d = (\<bar>m\<bar> + 1) / k"
  have d: "0 < d" "d * k = \<bar>m\<bar> + 1"
    using assms by (simp_all add: d_def)
  have inside: "isEdgeTop parentRect sz (edgeTop parentRect sz - d)"
    using d(1) by (simp add: isEdgeTop_def)
  have "nextScrollTop parentRect sz k (edgeTop parentRect sz - d) st - st = - (d * k)"
    using delta_top [OF inside] by simp
  then have "m < \<bar>nextScrollTop parentRect sz k (edgeTop parentRect sz - d) st - st\<bar>"
    using d(2) by simp
  with inside show ?thesis by blast
qed

lemma ramp_bottom_unbounded:
  assumes "0 < k"
  shows "\<exists>y. isEdgeBottom parentRect sz y \<and> \<not> isEdgeTop parentRect sz y
    \<and> m < \<bar>nextScrollTop parentRect sz k y st - st\<bar>"
proof -
  define q where "q = (\<bar>m\<bar> + 1) / k"
  define g where "g = \<bar>edgeTop parentRect sz - edgeBottom parentRect sz\<bar>"
  define d where "d = q + g"
  have q: "0 < q" "q * k = \<bar>m\<bar> + 1"
    using assms by (simp_all add: q_def)
  have g: "0 \<le> g" "edgeTop parentRect sz - edgeBottom parentRect sz \<le> g"
    by (simp_all add: g_def)
  have "0 \<le> g * k"
    using g(1) assms by simp
  then have "q * k \<le> d * k"
    by (simp add: d_def distrib_right)
  then have d: "0 < d" "\<bar>m\<bar> + 1 \<le> d * k" "edgeTop parentRect sz - edgeBottom parentRect sz \<le> d"
    using q g by (simp_all add: d_def)
  have inside: "isEdgeBottom parentRect sz (edgeBottom parentRect sz + d)"
    "\<not> isEdgeTop parentRect sz (edgeBottom parentRect sz + d)"
    using d(1,3) by (simp_all add: isEdgeBottom_def isEdgeTop_def)
  have "nextScrollTop parentRect sz k (edgeBottom parentRect sz + d) st - st = d * k"
    using delta_bottom [OF inside] by simp
  then have "m < \<bar>nextScrollTop parentRect sz k (edgeBottom parentRect sz + d) st - st\<bar>"
    using d(2) by simp
  with inside show ?thesis by blast
qed

text \<open>
  C4, as amended. For a positive intensity and in each of the four directions, the delta
  a frame applies is the penetration depth past the gutter's boundary times the
  intensity (for the right gutter \<open>(positionX - edgeRight) * intensity\<close>), it is zero on
  the boundary, its magnitude grows strictly as the pointer moves outward, and it
  exceeds every bound. The right and bottom deltas are those of positions outside the
  left and top gutter, which the source tests first.
\<close>

theorem speed_ramp_linear_monotonic:
  assumes "0 < k"
  shows "(isEdgeLeft parentRect sz x \<longrightarrow>
       nextScrollLeft parentRect sz k x sl - sl = - ((edgeLeft parentRect sz - x) * k))
   \<and> (isEdgeRight parentRect sz x \<and> \<not> isEdgeLeft parentRect sz x \<longrightarrow>
       nextScrollLeft parentRect sz k x sl - sl = (x - edgeRight parentRect sz) * k)
   \<and> (isEdgeTop parentRect sz y \<longrightarrow>
       nextScrollTop parentRect sz k y st - st = - ((edgeTop parentRect sz - y) * k))
   \<and> (isEdgeBottom parentRect sz y \<and> \<not> isEdgeTop parentRect sz y \<longrightarrow>
       nextScrollTop parentRect sz k y st - st = (y - edgeBottom parentRect sz) * k)
   \<and> (\<not> isEdgeRight parentRect sz (edgeLeft parentRect sz) \<longrightarrow>
       nextScrollLeft parentRect sz k (edgeLeft parentRect sz) sl - sl = 0)
   \<and> (\<not> isEdgeLeft parentRect sz (edgeRight parentRect sz) \<longrightarrow>
       nextScrollLeft parentRect sz k (edgeRight parentRect sz) sl - sl = 0)
   \<and> (\<not> isEdgeBottom parentRect sz (edgeTop parentRect sz) \<longrightarrow>
       nextScrollTop parentRect sz k (edgeTop parentRect sz) st - st = 0)
   \<and> (\<not> isEdgeTop parentRect sz (edgeBottom parentRect sz) \<longrightarrow>
       nextScrollTop parentRect sz k (edgeBottom parentRect sz) st - st = 0)
   \<and> (isEdgeLeft parentRect sz x \<and> x' < x \<longrightarrow>
       \<bar>nextScrollLeft parentRect sz k x sl - sl\<bar> < \<bar>nextScrollLeft parentRect sz k x' sl - sl\<bar>)
   \<and> (isEdgeRight parentRect sz x \<and> \<not> isEdgeLeft parentRect sz x \<and> x < x' \<longrightarrow>
       \<bar>nextScrollLeft parentRect sz k x sl - sl\<bar> < \<bar>nextScrollLeft parentRect sz k x' sl - sl\<bar>)
   \<and> (isEdgeTop parentRect sz y \<and> y' < y \<longrightarrow>
       \<bar>nextScrollTop parentRect sz k y st - st\<bar> < \<bar>nextScrollTop parentRect sz k y' st - st\<bar>)
   \<and> (isEdgeBottom parentRect sz y \<and> \<not> isEdgeTop parentRect sz y \<and> y < y' \<longrightarrow>
       \<bar>nextScrollTop parentRect sz k y st - st\<bar> < \<bar>nextScrollTop parentRect sz k y' st - st\<bar>)
   \<and> (\<forall>m. \<exists>x. isEdgeLeft parentRect sz x
       \<and> m < \<bar>nextScrollLeft parentRect sz k x sl - sl\<bar>)
   \<and> (\<forall>m. \<exists>x. isEdgeRight parentRect sz x \<and> \<not> isEdgeLeft parentRect sz x
       \<and> m < \<bar>nextScrollLeft parentRect sz k x sl - sl\<bar>)
   \<and> (\<forall>m. \<exists>y. isEdgeTop parentRect sz y
       \<and> m < \<bar>nextScrollTop parentRect sz k y st - st\<bar>)
   \<and> (\<forall>m. \<exists>y. isEdgeBottom parentRect sz y \<and> \<not> isEdgeTop parentRect sz y
       \<and> m < \<bar>nextScrollTop parentRect sz k y st - st\<bar>)"
proof -
  note linear = delta_left delta_right delta_top delta_bottom
  note boundary =
    delta_none(1) [OF boundary_outside(1)] delta_none(1) [OF _ boundary_outside(2)]
    delta_none(2) [OF boundary_outside(3)] delta_none(2) [OF _ boundary_outside(4)]
  note mono = ramp_left_mono [OF assms] ramp_right_mono [OF assms]
    ramp_top_mono [OF assms] ramp_bottom_mono [OF assms]
  note unbounded = ramp_left_unbounded [OF assms] ramp_right_unbounded [OF assms]
    ramp_top_unbounded [OF assms] ramp_bottom_unbounded [OF assms]
  show ?thesis
    by (intro conjI impI allI; (elim conjE)?) (rule linear boundary mono unbounded; assumption)+
qed

theorem speed_ramp_witness:
  "(0::real) < 2 / 10
   \<and> nextScrollLeft scenario_bounds 50 (2 / 10) 520 0 - 0 = 14
   \<and> nextScrollTop scenario_bounds 50 (2 / 10) 10 0 - 0 = - 8
   \<and> \<bar>nextScrollLeft scenario_bounds 50 (2 / 10) 520 0 - 0\<bar>
       < \<bar>nextScrollLeft scenario_bounds 50 (2 / 10) 530 0 - 0\<bar>
   \<and> \<bar>nextScrollTop scenario_bounds 50 (2 / 10) 10 0 - 0\<bar>
       < \<bar>nextScrollTop scenario_bounds 50 (2 / 10) 5 0 - 0\<bar>"
proof -
  have k: "(0::real) < 2 / 10"
    by simp
  have gutters: "isEdgeRight scenario_bounds 50 520"
    "\<not> isEdgeLeft scenario_bounds 50 520"
    "isEdgeTop scenario_bounds 50 10"
    by (simp_all add: isEdgeRight_def isEdgeLeft_def isEdgeTop_def edgeRight_def edgeLeft_def edgeTop_def)
  have order: "(520::real) < 530" "(5::real) < 10"
    by simp_all
  note ramp = speed_ramp_linear_monotonic [OF k,
      where parentRect = "scenario_bounds"
        and sz = 50 and x = 520 and x' = 530 and y = 10 and y' = 5 and sl = 0 and st = 0]
  have "nextScrollLeft scenario_bounds 50 (2 / 10) 520 0 - 0
      = (520 - edgeRight scenario_bounds 50) * (2 / 10)"
    using gutters ramp by blast
  then have right: "nextScrollLeft scenario_bounds 50 (2 / 10) 520 0 - 0 = 14"
    by (simp add: edgeRight_def)
  have "nextScrollTop scenario_bounds 50 (2 / 10) 10 0 - 0
      = - ((edgeTop scenario_bounds 50 - 10) * (2 / 10))"
    using gutters ramp by blast
  then have top: "nextScrollTop scenario_bounds 50 (2 / 10) 10 0 - 0 = - 8"
    by (simp add: edgeTop_def)
  have faster: "\<bar>nextScrollLeft scenario_bounds 50 (2 / 10) 520 0 - 0\<bar>
       < \<bar>nextScrollLeft scenario_bounds 50 (2 / 10) 530 0 - 0\<bar>"
    "\<bar>nextScrollTop scenario_bounds 50 (2 / 10) 10 0 - 0\<bar>
       < \<bar>nextScrollTop scenario_bounds 50 (2 / 10) 5 0 - 0\<bar>"
    using gutters order ramp by blast+
  show ?thesis
    using k right top faster by blast
qed

text \<open>
  C4 as the specification states it fails. The hook accepts an intensity of 0, and then
  the delta is 0 at every depth, so it does not grow from 520 to 530. And where the
  gutters overlap (width 80, size 50), position 40 is in the right gutter, yet the
  frame applies the left delta and not \<open>(positionX - edgeRight) * intensity\<close>.
\<close>

theorem speed_ramp_flat_or_shadowed:
  "intensity \<lparr>enabled = True, intensity_opt = Some 0, onScroll_opt = None, size_opt = None\<rparr> = 0
   \<and> isEdgeRight scenario_bounds 50 520 \<and> \<not> isEdgeLeft scenario_bounds 50 520
   \<and> isEdgeRight scenario_bounds 50 530 \<and> \<not> isEdgeLeft scenario_bounds 50 530
   \<and> \<not> \<bar>nextScrollLeft scenario_bounds 50 0 520 0 - 0\<bar>
         < \<bar>nextScrollLeft scenario_bounds 50 0 530 0 - 0\<bar>
   \<and> isEdgeRight \<lparr>bottom = 300, left = 0, right = 80, top_y = 0\<rparr> 50 40
   \<and> (40 - edgeRight \<lparr>bottom = 300, left = 0, right = 80, top_y = 0\<rparr> 50) * (2 / 10) = 2
   \<and> nextScrollLeft \<lparr>bottom = 300, left = 0, right = 80, top_y = 0\<rparr> 50 (2 / 10) 40 0 - 0 = - 2"
  by (simp add: intensity_def nextScrollLeft_def isEdgeLeft_def isEdgeRight_def
      edgeLeft_def edgeRight_def)

section \<open>Failures\<close>

text \<open>
  C8, as amended. A task of the hook fails exactly when a touch move with an empty list of
  target touches reaches the attached listener; every other task completes. A touch move
  with at least one target touch takes both coordinates from the first one and ignores
  the others.
\<close>

theorem only_empty_touch_list_throws:
  "(\<exists>err. step e w = Inl err) = (touchmove w \<and> e = TouchMove [])
   \<and> handleTouchMove (t # ts) w
       = Inr (w\<lparr>positionXRef := Some (clientX t), positionYRef := Some (clientY t)\<rparr>)
   \<and> step (TouchMove (t # ts)) w
       = Inr (if touchmove w
              then w\<lparr>positionXRef := Some (clientX t), positionYRef := Some (clientY t)\<rparr>
              else w)"
proof -
  have "(\<exists>err. step e w = Inl err) = (touchmove w \<and> e = TouchMove [])"
  proof (cases e)
    case (TouchMove targetTouches)
    then show ?thesis
      by (cases targetTouches) (simp_all add: handleTouchMove_def)
  qed simp_all
  then show ?thesis
    by (simp add: handleTouchMove_def)
qed

text \<open>
  C8 as the specification states it fails: delivered to an armed hook, a touch move with
  no target touch throws a \<open>TypeError\<close>.
\<close>

theorem empty_touch_list_throws:
  "step (TouchMove [])
     (dispatch initial (EnabledEffect default_options))
   = Inl TypeError"
  by (simp add: dispatch_def enabledEffect_def checkStep_def requestAnimationFrame_def
      cleanup_def initial_def handleTouchMove_def)

theorem touch_move_witness:
  "step (TouchMove [\<lparr>clientX = 520, clientY = 150\<rparr>, \<lparr>clientX = 3, clientY = 4\<rparr>])
     (dispatch initial (EnabledEffect default_options))
   = Inr ((dispatch initial (EnabledEffect default_options))
       \<lparr>positionXRef := Some 520, positionYRef := Some 150\<rparr>)"
  using only_empty_touch_list_throws
    [of "TouchMove [\<lparr>clientX = 520, clientY = 150\<rparr>, \<lparr>clientX = 3, clientY = 4\<rparr>]"
      "dispatch initial (EnabledEffect default_options)"
      "\<lparr>clientX = 520, clientY = 150\<rparr>" "[\<lparr>clientX = 3, clientY = 4\<rparr>]"]
  by (simp add: dispatch_def enabledEffect_def checkStep_def requestAnimationFrame_def
      cleanup_def initial_def)

end
